theory Spec2Isabelle
  imports Complex_Main "HOL-Library.Multiset" "HOL-Library.Product_Lexorder"
    "HOL-Library.Char_ord" "HOL-Library.List_Lexorder"
begin

section \<open>Floating-point columns\<close>

text \<open>
  The data frames of \<^verbatim>\<open>finra.py\<close> hold 64-bit integer columns (the volumes) and
  float columns (every quotient).  A float is modelled by its exact rational value or one
  of the three special values of IEEE arithmetic; the rounding error of a finite quotient
  and the sign of a zero are not modelled.  Division, multiplication and addition follow
  IEEE on the special values (numpy divides an integer column by a zero without raising:
  the quotient is an infinity, or not-a-number for 0/0), and every comparison with
  not-a-number is false.
\<close>

datatype fl = NaN | NInf | Fin rat | PInf

definition of_int64 :: "int \<Rightarrow> fl" where
  "of_int64 n = Fin (of_int n)"

fun fdiv :: "fl \<Rightarrow> fl \<Rightarrow> fl" where
  "fdiv NaN y = NaN"
| "fdiv x NaN = NaN"
| "fdiv (Fin a) (Fin b) =
     (if b \<noteq> 0 then Fin (a / b) else if 0 < a then PInf else if a < 0 then NInf else NaN)"
| "fdiv (Fin a) y = Fin 0"
| "fdiv x (Fin b) = (if (x = PInf) = (0 \<le> b) then PInf else NInf)"
| "fdiv x y = NaN"

fun fmul :: "fl \<Rightarrow> fl \<Rightarrow> fl" where
  "fmul NaN y = NaN"
| "fmul x NaN = NaN"
| "fmul (Fin a) (Fin b) = Fin (a * b)"
| "fmul (Fin a) y = (if a = 0 then NaN else if (0 < a) = (y = PInf) then PInf else NInf)"
| "fmul x (Fin b) = (if b = 0 then NaN else if (0 < b) = (x = PInf) then PInf else NInf)"
| "fmul x y = (if x = y then PInf else NInf)"

fun fadd :: "fl \<Rightarrow> fl \<Rightarrow> fl" where
  "fadd NaN y = NaN"
| "fadd x NaN = NaN"
| "fadd (Fin a) (Fin b) = Fin (a + b)"
| "fadd (Fin a) y = y"
| "fadd x (Fin b) = x"
| "fadd x y = (if x = y then x else NaN)"

text \<open>The position of a float in the order of the extended line; not-a-number is put
  below everything, which is where a descending sort with \<^verbatim>\<open>na_position='last'\<close>
  needs it.\<close>

fun fl_key :: "fl \<Rightarrow> nat \<times> rat" where
  "fl_key NaN = (0, 0)"
| "fl_key NInf = (1, 0)"
| "fl_key (Fin q) = (2, q)"
| "fl_key PInf = (3, 0)"

fun f_lt :: "fl \<Rightarrow> fl \<Rightarrow> bool" where
  "f_lt NaN y = False"
| "f_lt x NaN = False"
| "f_lt x y = (fl_key x < fl_key y)"

fun f_le :: "fl \<Rightarrow> fl \<Rightarrow> bool" where
  "f_le NaN y = False"
| "f_le x NaN = False"
| "f_le x y = (fl_key x \<le> fl_key y)"

definition f_gt :: "fl \<Rightarrow> fl \<Rightarrow> bool" where
  "f_gt x y = f_lt y x"

definition f_ge :: "fl \<Rightarrow> fl \<Rightarrow> bool" where
  "f_ge x y = f_le y x"

text \<open>\<^verbatim>\<open>Series.round(2)\<close>: to two decimals, a tie going to the even neighbour.\<close>

definition round_half_even :: "rat \<Rightarrow> int" where
  "round_half_even q =
     (let f = \<lfloor>q\<rfloor>; d = q - of_int f
      in if d < 1 / 2 then f else if 1 / 2 < d then f + 1 else if even f then f else f + 1)"

fun fround2 :: "fl \<Rightarrow> fl" where
  "fround2 (Fin q) = Fin (of_int (round_half_even (q * 100)) / 100)"
| "fround2 x = x"

definition of_bool_fl :: "bool \<Rightarrow> fl" where
  "of_bool_fl b = Fin (if b then 1 else 0)"

section \<open>The pandas operations the program uses\<close>

text \<open>A data frame is the list of its rows, a column (Series) the list of its values.
  Sums and means skip not-a-number, as pandas does by default.\<close>

definition dropna :: "fl list \<Rightarrow> fl list" where
  "dropna xs = filter (\<lambda>x. x \<noteq> NaN) xs"

definition fsum :: "fl list \<Rightarrow> fl" where
  "fsum xs = foldl fadd (Fin 0) xs"

definition fmean :: "fl list \<Rightarrow> fl" where
  "fmean xs = (let obs = dropna xs in fdiv (fsum obs) (Fin (of_nat (length obs))))"

definition mean_int :: "int list \<Rightarrow> fl" where
  "mean_int xs = fdiv (of_int64 (sum_list xs)) (Fin (of_nat (length xs)))"

text \<open>\<^verbatim>\<open>rolling(window=w, min_periods=mp)\<close>: the window of position \<open>i\<close> holds the last
  \<open>w\<close> values up to and including \<open>i\<close>; with fewer than \<open>mp\<close> observations in it
  the result is not-a-number.  (For a window that holds an infinity pandas' running
  update can differ from the plain sum; no float column that is rolled here holds one
  unless a row has \<^verbatim>\<open>TotalVolume\<close> 0 and \<^verbatim>\<open>ShortVolume\<close> not 0.)\<close>

definition window :: "nat \<Rightarrow> nat \<Rightarrow> 'a list \<Rightarrow> 'a list" where
  "window w i xs = drop (Suc i - w) (take (Suc i) xs)"

definition rolling :: "nat \<Rightarrow> nat \<Rightarrow> (fl list \<Rightarrow> fl) \<Rightarrow> fl list \<Rightarrow> fl list" where
  "rolling w mp agg xs =
     map (\<lambda>i. let obs = dropna (window w i xs) in if mp \<le> length obs then agg obs else NaN)
       [0..<length xs]"

definition rolling_sum :: "nat \<Rightarrow> nat \<Rightarrow> fl list \<Rightarrow> fl list" where
  "rolling_sum w mp xs = rolling w mp fsum xs"


text \<open>\<^verbatim>\<open>groupby(key)[col].transform(f)\<close>: \<open>f\<close> runs on the rows of each group, in frame
  order, and every row gets the value at its own place within its group.  (\<open>f\<close> returns
  one value per row of the group everywhere it is used below.)\<close>

definition groupby_transform :: "('a \<Rightarrow> 'k) \<Rightarrow> ('a list \<Rightarrow> 'b list) \<Rightarrow> 'a list \<Rightarrow> 'b list" where
  "groupby_transform key f xs =
     map (\<lambda>i. let k = key (xs ! i)
               in f (filter (\<lambda>x. key x = k) xs) ! length (filter (\<lambda>x. key x = k) (take i xs)))
       [0..<length xs]"

text \<open>\<^verbatim>\<open>groupby(key)\<close> followed by an aggregation lists the groups by ascending key.\<close>

definition group_keys :: "('a \<Rightarrow> 'k::linorder) \<Rightarrow> 'a list \<Rightarrow> 'k list" where
  "group_keys key xs = sort (remdups (map key xs))"

text \<open>\<^verbatim>\<open>sort_values(by=[...], ascending=False)\<close>: descending in the key tuple, rows with
  equal keys staying in frame order (pandas sorts several keys by a stable lexsort; for a
  single key its default sort promises no order among ties, and the model keeps frame
  order there too).  \<open>key\<close> maps a row to its tuple of keys, floats through \<open>fl_key\<close>.\<close>

definition sort_values_desc :: "('a \<Rightarrow> 'k::linorder) \<Rightarrow> 'a list \<Rightarrow> 'a list" where
  "sort_values_desc key xs = rev (sort_key key (rev xs))"

definition head :: "nat \<Rightarrow> 'a list \<Rightarrow> 'a list" where
  "head n xs = take n xs"

definition unique :: "'a list \<Rightarrow> 'a list" where
  "unique xs = rev (remdups (rev xs))"

section \<open>Rows\<close>

text \<open>
  A date is its proleptic Gregorian ordinal (\<^verbatim>\<open>date.toordinal()\<close>), so that
  \<^verbatim>\<open>d - timedelta(days=k)\<close> is \<open>d - k\<close>.  The program compares dates as
  \<^verbatim>\<open>'%Y-%m-%d'\<close> strings in several places; these fixed-width strings are ordered as
  the dates are.

  One record holds every column a data frame of the program can have.  A column that a
  mode has not assigned is absent from its frame; the record keeps it at the value
  \<open>raw_row\<close> gives it, and no definition of that mode reads it.
\<close>

type_synonym date = int

record row =
  Date :: date
  Symbol :: string
  ShortVolume :: int
  TotalVolume :: int
  Bought :: int
  Sold :: int
  Total_Volume :: int
  Buy_Sell_Ratio :: fl
  Pct_Avg :: fl
  DP_Index :: fl
  Accumulation :: bool
  Rolling_Accumulation :: bool
  Consistent_Accumulation :: bool
  Five_Accumulation :: bool
  Cumulative_Buying :: fl
  Cumulative_Selling :: fl
  DP_Index_5D :: fl
  DP_Index_2W :: fl
  DP_Index_1M :: fl
  BTD_Tag :: bool
  Closing_Price :: fl

text \<open>A row as the daily file gives it.\<close>

definition raw_row :: "date \<Rightarrow> string \<Rightarrow> int \<Rightarrow> int \<Rightarrow> row" where
  "raw_row d s sv tv =
     \<lparr>Date = d, Symbol = s, ShortVolume = sv, TotalVolume = tv, Bought = 0, Sold = 0,
      Total_Volume = 0, Buy_Sell_Ratio = NaN, Pct_Avg = NaN, DP_Index = NaN,
      Accumulation = False, Rolling_Accumulation = False, Consistent_Accumulation = False,
      Five_Accumulation = False, Cumulative_Buying = NaN, Cumulative_Selling = NaN,
      DP_Index_5D = NaN, DP_Index_2W = NaN, DP_Index_1M = NaN, BTD_Tag = False,
      Closing_Price = NaN\<rparr>"

section \<open>Steps shared by the analysis modes\<close>

text \<open>\<^verbatim>\<open>date.weekday()\<close>: Monday is 0.\<close>

definition weekday :: "date \<Rightarrow> int" where
  "weekday d = (d + 6) mod 7"

text \<open>The dates a mode loads (lines 162-163, 274-275, 487-488, 561-562, 676-677,
  774-775): every day from the start date to the end date that is not a Saturday or a
  Sunday.\<close>

definition trading_dates :: "date \<Rightarrow> date \<Rightarrow> date list" where
  "trading_dates start_date end_date =
     filter (\<lambda>date. weekday date < 5)
       (map (\<lambda>i. start_date + int i) [0..<nat (end_date - start_date + 1)])"

text \<open>
  Every mode loads its dates in a loop over \<^verbatim>\<open>dates\<close> (lines 165-172, 277-285,
  490-495, 564-570, 679-687, 777-783).  \<open>fetched\<close> pairs each date of the loop with what
  \<^verbatim>\<open>get_data_for_date\<close> returned for it (\<open>None\<close> for Python's \<^verbatim>\<open>None\<close>).  \<open>prep\<close>
  is what the loop body does to the day's frame before it stamps the date, and
  \<open>skip_empty\<close> says whether the body drops a frame that is empty by then.
\<close>

fun collect_frames ::
  "(row list \<Rightarrow> row list) \<Rightarrow> bool \<Rightarrow> (date \<times> row list option) list \<Rightarrow> row list list" where
  "collect_frames prep skip_empty [] = []"
| "collect_frames prep skip_empty ((date, None) # rest) = collect_frames prep skip_empty rest"
| "collect_frames prep skip_empty ((date, Some daily_data) # rest) =
     (let daily_data = prep daily_data
      in if skip_empty \<and> daily_data = [] then collect_frames prep skip_empty rest
         else map (\<lambda>r. r\<lparr>Date := date\<rparr>) daily_data # collect_frames prep skip_empty rest)"

text \<open>The derived columns (lines 178-183, 375-380, 501-506, 576-581, 693-698, 789-794).
  The modes differ in whether \<^verbatim>\<open>% Avg\<close> and \<^verbatim>\<open>DP Index\<close> read the raw column
  \<^verbatim>\<open>TotalVolume\<close> or the derived \<^verbatim>\<open>Total Volume\<close>: \<open>avg_col\<close> and \<open>dp_col\<close> are
  the column each of them reads.\<close>

definition derive_metrics :: "(row \<Rightarrow> int) \<Rightarrow> (row \<Rightarrow> int) \<Rightarrow> row list \<Rightarrow> row list" where
  "derive_metrics avg_col dp_col data =
     (let data = map (\<lambda>r. r\<lparr>Bought := ShortVolume r\<rparr>) data;
          data = map (\<lambda>r. r\<lparr>Sold := TotalVolume r - ShortVolume r\<rparr>) data;
          data = map (\<lambda>r. r\<lparr>Total_Volume := Bought r + Sold r\<rparr>) data;
          data = map (\<lambda>r. r\<lparr>Buy_Sell_Ratio := fdiv (of_int64 (Bought r)) (of_int64 (Sold r))\<rparr>) data;
          avg = mean_int (map avg_col data);
          data = map (\<lambda>r. r\<lparr>Pct_Avg := fmul (fdiv (of_int64 (avg_col r)) avg) (Fin 100)\<rparr>) data;
          data = map (\<lambda>r. r\<lparr>DP_Index :=
                   fround2 (fmul (fdiv (of_int64 (Bought r)) (of_int64 (dp_col r))) (Fin 100))\<rparr>) data
      in data)"

text \<open>\<^verbatim>\<open>flags.rolling(window=w, min_periods=mp).sum() >= n\<close> on a boolean column.\<close>

definition rolling_flag :: "nat \<Rightarrow> nat \<Rightarrow> nat \<Rightarrow> bool list \<Rightarrow> bool list" where
  "rolling_flag w mp n flags =
     map (\<lambda>s. f_ge s (Fin (of_nat n))) (rolling_sum w mp (map of_bool_fl flags))"


text \<open>\<^verbatim>\<open>data[(data['Bought'] >= min_volume) & (data['Sold'] >= min_volume)]\<close>.\<close>

definition volume_filter :: "int \<Rightarrow> row list \<Rightarrow> row list" where
  "volume_filter min_volume data =
     filter (\<lambda>r. min_volume \<le> Bought r \<and> min_volume \<le> Sold r) data"

text \<open>\<^verbatim>\<open>fetch_closing_prices\<close> (lines 42-52).  \<open>yf\<close> stands for Yahoo Finance: the first
  close of a symbol's one-day history, \<open>None\<close> when the history is empty or the lookup
  raises (the function catches the exception and adds no entry).\<close>

definition fetch_closing_prices :: "(string \<Rightarrow> fl option) \<Rightarrow> string list \<Rightarrow> (string \<rightharpoonup> fl)" where
  "fetch_closing_prices yf symbols =
     foldl (\<lambda>prices symbol. case yf symbol of None \<Rightarrow> prices | Some p \<Rightarrow> prices(symbol \<mapsto> p))
       Map.empty symbols"

text \<open>The three lines every priced mode repeats: the distinct symbols, their prices, and
  the \<^verbatim>\<open>Closing Price\<close> column (\<^verbatim>\<open>Series.map\<close> gives not-a-number for a symbol that
  the dictionary does not hold).\<close>

definition with_closing_price :: "(string \<Rightarrow> fl option) \<Rightarrow> row list \<Rightarrow> row list" where
  "with_closing_price yf data =
     (let unique_symbols = unique (map Symbol data);
          closing_prices = fetch_closing_prices yf unique_symbols
      in map (\<lambda>r. r\<lparr>Closing_Price :=
                (case closing_prices (Symbol r) of None \<Rightarrow> NaN | Some p \<Rightarrow> p)\<rparr>) data)"

text \<open>\<^verbatim>\<open>data[data['Closing Price'] > price_threshold]\<close>.\<close>

definition price_filter :: "rat \<Rightarrow> row list \<Rightarrow> row list" where
  "price_filter price_threshold data =
     filter (\<lambda>r. f_gt (Closing_Price r) (Fin price_threshold)) data"




definition by_date_ratio_dp_bought :: "row \<Rightarrow> date \<times> (nat \<times> rat) \<times> (nat \<times> rat) \<times> int" where
  "by_date_ratio_dp_bought r =
     (Date r, fl_key (Buy_Sell_Ratio r), fl_key (DP_Index r), Bought r)"



section \<open>Ticker Analysis (lines 148-249)\<close>

definition ticker_accumulation :: "row list \<Rightarrow> row list" where
  "ticker_accumulation data =
     (let data = map (\<lambda>r. r\<lparr>Accumulation := f_gt (Buy_Sell_Ratio r) (Fin (5 / 4))\<rparr>) data
      in map (\<lambda>(r, b). r\<lparr>Rolling_Accumulation := b\<rparr>)
           (zip data (rolling_flag 5 5 5 (map Accumulation data))))"


section \<open>Top Dark Pools (lines 252-348)\<close>

text \<open>The loop body sets \<^verbatim>\<open>Bought\<close> and \<^verbatim>\<open>Sold\<close> and filters the day's frame by
  volume (lines 281-283); the frame is appended also when the filter leaves it empty.\<close>

definition top_dark_pools_frames :: "int \<Rightarrow> (date \<times> row list option) list \<Rightarrow> row list list" where
  "top_dark_pools_frames min_volume fetched =
     collect_frames
       (\<lambda>daily_data.
          let daily_data = map (\<lambda>r. r\<lparr>Bought := ShortVolume r\<rparr>) daily_data;
              daily_data = map (\<lambda>r. r\<lparr>Sold := TotalVolume r - ShortVolume r\<rparr>) daily_data
          in volume_filter min_volume daily_data)
       False fetched"

text \<open>Lines 288-294.\<close>

definition top_dark_pools_combined :: "row list list \<Rightarrow> row list" where
  "top_dark_pools_combined data_frames =
     (let combined_data = concat data_frames;
          combined_data = map (\<lambda>r. r\<lparr>Total_Volume := Bought r + Sold r\<rparr>) combined_data;
          combined_data = map (\<lambda>r. r\<lparr>Buy_Sell_Ratio :=
                            fdiv (of_int64 (Bought r)) (of_int64 (Sold r))\<rparr>) combined_data;
          avg = mean_int (map TotalVolume combined_data);
          combined_data = map (\<lambda>r. r\<lparr>Pct_Avg :=
                            fmul (fdiv (of_int64 (TotalVolume r)) avg) (Fin 100)\<rparr>) combined_data;
          combined_data = map (\<lambda>r. r\<lparr>DP_Index :=
                            fround2 (fmul (fdiv (of_int64 (Bought r)) (of_int64 (TotalVolume r)))
                              (Fin 100))\<rparr>) combined_data
      in combined_data)"

text \<open>Lines 300-304: one row per symbol and date.  The aggregated frame has the columns
  of the group key and of the aggregation only.\<close>

definition top_dark_pools_by_symbol_date :: "row list \<Rightarrow> row list" where
  "top_dark_pools_by_symbol_date combined_data =
     map (\<lambda>(s, d).
            let g = filter (\<lambda>r. Symbol r = s \<and> Date r = d) combined_data
            in (raw_row d s 0 0)
                 \<lparr>Buy_Sell_Ratio := fmean (map Buy_Sell_Ratio g),
                  Bought := sum_list (map Bought g),
                  Sold := sum_list (map Sold g)\<rparr>)
       (group_keys (\<lambda>r. (Symbol r, Date r)) combined_data)"

text \<open>Lines 306-308: the rolling count within each symbol.\<close>

definition top_dark_pools_accumulation :: "row list \<Rightarrow> row list" where
  "top_dark_pools_accumulation combined_data =
     (let accumulation = top_dark_pools_by_symbol_date combined_data
      in map (\<lambda>(r, b). r\<lparr>Consistent_Accumulation := b\<rparr>)
           (zip accumulation
              (groupby_transform Symbol
                 (\<lambda>x. rolling_flag 5 5 5 (map (\<lambda>r. f_gt (Buy_Sell_Ratio r) (Fin (5 / 4))) x))
                 accumulation)))"

text \<open>Lines 314-318: one row per symbol.\<close>

definition top_dark_pools_by_symbol :: "row list \<Rightarrow> row list" where
  "top_dark_pools_by_symbol accumulation =
     map (\<lambda>s. let g = filter (\<lambda>r. Symbol r = s) accumulation
               in (raw_row 0 s 0 0)
                    \<lparr>Bought := sum_list (map Bought g),
                     Sold := sum_list (map Sold g),
                     Buy_Sell_Ratio := fmean (map Buy_Sell_Ratio g)\<rparr>)
       (group_keys Symbol accumulation)"

text \<open>Lines 311-327.\<close>

definition top_dark_pools_pipeline ::
  "rat \<Rightarrow> date \<Rightarrow> (string \<Rightarrow> fl option) \<Rightarrow> row list \<Rightarrow> row list" where
  "top_dark_pools_pipeline price_threshold analysis_end_date yf accumulation =
     (let accumulation = filter Consistent_Accumulation accumulation;
          top_dark_pools = top_dark_pools_by_symbol accumulation;
          top_dark_pools =
            head 100 (sort_values_desc (\<lambda>r. fl_key (Buy_Sell_Ratio r)) top_dark_pools);
          top_dark_pools = with_closing_price yf top_dark_pools;
          top_dark_pools = price_filter price_threshold top_dark_pools;
          top_dark_pools = map (\<lambda>r. r\<lparr>Date := analysis_end_date\<rparr>) top_dark_pools
      in top_dark_pools)"

definition top_dark_pools ::
  "int \<Rightarrow> rat \<Rightarrow> date \<Rightarrow> (string \<Rightarrow> fl option) \<Rightarrow> (date \<times> row list option) list
    \<Rightarrow> row list option" where
  "top_dark_pools min_volume price_threshold analysis_end_date yf fetched =
     (let data_frames = top_dark_pools_frames min_volume fetched
      in if data_frames = [] then None
         else Some (top_dark_pools_pipeline price_threshold analysis_end_date yf
                (top_dark_pools_accumulation (top_dark_pools_combined data_frames))))"

section \<open>Volume Buy/Sell Analysis (lines 350-460)\<close>





section \<open>Buy Signal Analysis (lines 463-542)\<close>




section \<open>Accumulation (lines 544-639)\<close>

text \<open>Line 550: \<^verbatim>\<open>analysis_start_date = end_date - timedelta(days=2)\<close>.\<close>

definition accumulation_start_date :: "date \<Rightarrow> date" where
  "accumulation_start_date end_date = end_date - 2"

text \<open>Lines 588-589.  The frame holds the rows of every symbol, one date after the other,
  and the rolling count runs down the frame as it is.\<close>

definition accumulation_flags :: "row list \<Rightarrow> row list" where
  "accumulation_flags data =
     (let data = map (\<lambda>r. r\<lparr>Accumulation := f_gt (Buy_Sell_Ratio r) (Fin (5 / 4)) \<and>
                                   f_gt (DP_Index r) (Fin 47)\<rparr>) data
      in map (\<lambda>(r, b). r\<lparr>Rolling_Accumulation := b\<rparr>)
           (zip data (rolling_flag 5 5 3 (map Accumulation data))))"

text \<open>Line 614, which stands under the comment
  \<^verbatim>\<open># Filter where Date is greater than or equal to the start_date\<close>.\<close>

definition accumulation_date_filter :: "date \<Rightarrow> row list \<Rightarrow> row list" where
  "accumulation_date_filter analysis_start_date data =
     filter (\<lambda>r. analysis_start_date < Date r) data"

text \<open>Lines 604-631.\<close>

definition accumulation_pipeline ::
  "int \<Rightarrow> rat \<Rightarrow> date \<Rightarrow> (string \<Rightarrow> fl option) \<Rightarrow> row list \<Rightarrow> row list" where
  "accumulation_pipeline min_volume price_threshold analysis_start_date yf data =
     (let data = filter Accumulation data;
          data = filter Rolling_Accumulation data;
          data = volume_filter min_volume data;
          data = accumulation_date_filter analysis_start_date data;
          data = with_closing_price yf data;
          data = price_filter price_threshold data;
          data = head 50 (sort_values_desc by_date_ratio_dp_bought data)
      in data)"

text \<open>\<open>end_date\<close> is the date the user entered; the dates of \<open>fetched\<close> are those the
  button's loop ran over.\<close>

definition accumulation ::
  "int \<Rightarrow> rat \<Rightarrow> date \<Rightarrow> (string \<Rightarrow> fl option) \<Rightarrow> (date \<times> row list option) list
    \<Rightarrow> row list option" where
  "accumulation min_volume price_threshold end_date yf fetched =
     (let data_frames = collect_frames (\<lambda>daily_data. daily_data) True fetched
      in if data_frames = [] then None
         else
           let data = concat data_frames;
               data = derive_metrics Total_Volume Total_Volume data;
               data = accumulation_flags data
           in Some (accumulation_pipeline min_volume price_threshold
                      (accumulation_start_date end_date) yf data))"

section \<open>Filter Analysis (lines 642-750)\<close>

datatype buy_or_sell = Buy | Sell


text \<open>Lines 710-713.\<close>

definition filter_ratio :: "buy_or_sell \<Rightarrow> rat \<Rightarrow> row list \<Rightarrow> row list" where
  "filter_ratio mode buy_sell_ratio data =
     (if mode = Buy then filter (\<lambda>r. f_ge (Buy_Sell_Ratio r) (Fin buy_sell_ratio)) data
      else filter (\<lambda>r. f_le (Buy_Sell_Ratio r) (Fin buy_sell_ratio)) data)"


text \<open>Line 721.\<close>

definition filter_analysis_date_filter :: "date \<Rightarrow> row list \<Rightarrow> row list" where
  "filter_analysis_date_filter analysis_start_date data =
     filter (\<lambda>r. analysis_start_date \<le> Date r) data"



section \<open>Accumulation Analysis (lines 752-837)\<close>

text \<open>Lines 813-817.  The grouped rolling column is boolean already, so the
  \<^verbatim>\<open>fillna(False)\<close> of line 816 leaves it as it is.\<close>

definition accumulation_analysis_flags :: "row list \<Rightarrow> row list" where
  "accumulation_analysis_flags data =
     (let data = map (\<lambda>r. r\<lparr>Accumulation := f_gt (Buy_Sell_Ratio r) (Fin (5 / 4))\<rparr>) data;
          data = map (\<lambda>(r, b). r\<lparr>Rolling_Accumulation := b\<rparr>)
                   (zip data
                      (groupby_transform Symbol
                         (\<lambda>x. rolling_flag 5 5 5 (map Accumulation x)) data));
          data = map (\<lambda>(r, b). r\<lparr>Five_Accumulation := b\<rparr>)
                   (zip data
                      (groupby_transform Symbol
                         (\<lambda>x. replicate (length x)
                                 (list_ex Rolling_Accumulation (drop (length x - 5) x)))
                         data))
      in data)"

text \<open>Lines 823-830.  \<open>analysis_end_date\<close> is the variable the Buy Signal tab left
  behind.\<close>

definition accumulation_analysis_pipeline :: "int \<Rightarrow> date \<Rightarrow> row list \<Rightarrow> row list" where
  "accumulation_analysis_pipeline min_volume analysis_end_date data =
     (let data = filter Accumulation data;
          data = filter Rolling_Accumulation data;
          data = filter (\<lambda>r. analysis_end_date \<le> Date r) data;
          data = volume_filter min_volume data
      in data)"

definition accumulation_analysis ::
  "int \<Rightarrow> date \<Rightarrow> (date \<times> row list option) list \<Rightarrow> row list option" where
  "accumulation_analysis min_volume analysis_end_date fetched =
     (let data_frames = collect_frames (\<lambda>daily_data. daily_data) True fetched
      in if data_frames = [] then None
         else
           let data = concat data_frames;
               data = derive_metrics Total_Volume Total_Volume data;
               data = accumulation_analysis_flags data
           in Some (accumulation_analysis_pipeline min_volume analysis_end_date data))"

section \<open>The pipeline of the specification\<close>



section \<open>The cache of daily files (lines 18-35)\<close>

text \<open>
  \<^verbatim>\<open>download_finra_data\<close> reads and writes the directory \<^verbatim>\<open>Data/Finra\<close> and calls the
  remote server.  The state it works on holds the files of the directory and, for the
  claims about remote attempts, the URLs requested so far.  Three things come from
  outside and are parameters: \<open>strftime\<close> is \<^verbatim>\<open>date.strftime('%Y%m%d')\<close>; \<open>remote\<close> is
  what \<^verbatim>\<open>requests.get\<close> meets at a URL, a failure of the request (a
  \<^verbatim>\<open>RequestException\<close>) or a response with its status code and text; \<open>read_csv\<close> is
  \<^verbatim>\<open>pd.read_csv(..., sep='|')\<close> on a text, \<open>None\<close> when pandas raises (an empty or
  ragged text).  The result is \<open>Inr (Some data)\<close> for a returned frame, \<open>Inr None\<close> for
  Python's \<^verbatim>\<open>None\<close>, and \<open>Inl e\<close> for an exception that leaves the function.  Writing
  and reading the local file are taken to succeed.
\<close>

datatype response = RequestFailed | Response nat string

datatype exn = ParserError

record world =
  files :: "string \<rightharpoonup> string"
  requested :: "string list"

definition DATA_DIR :: string where
  "DATA_DIR = ''Data/Finra''"

definition download_finra_data ::
  "(date \<Rightarrow> string) \<Rightarrow> (string \<Rightarrow> response) \<Rightarrow> (string \<Rightarrow> 'f option) \<Rightarrow> date \<Rightarrow> world
    \<Rightarrow> (exn + 'f option) \<times> world" where
  "download_finra_data strftime remote read_csv date w =
     (let base_url = ''https://cdn.finra.org/equity/regsho/daily/'';
          filename = ''CNMSshvol'' @ strftime date @ ''.txt'';
          file_path = DATA_DIR @ ''/'' @ filename
      in case files w file_path of
           Some text \<Rightarrow>
             (case read_csv text of
                None \<Rightarrow> (Inl ParserError, w)
              | Some data \<Rightarrow> (Inr (Some data), w))
         | None \<Rightarrow>
             let url = base_url @ filename;
                 w = w\<lparr>requested := requested w @ [url]\<rparr>
             in case remote url of
                  RequestFailed \<Rightarrow> (Inr None, w)
                | Response status_code text \<Rightarrow>
                    if 400 \<le> status_code \<and> status_code < 600 then (Inr None, w)
                    else
                      let w = w\<lparr>files := (files w)(file_path \<mapsto> text)\<rparr>
                      in case read_csv text of
                           None \<Rightarrow> (Inl ParserError, w)
                         | Some data \<Rightarrow> (Inr (Some data), w))"

section \<open>Row-wise views and example inputs\<close>




text \<open>Example inputs.  Ordinal 739000 is Wednesday 2024-04-24.  \<open>single_day\<close> is
  what a loop over the trading dates from \<open>start_date\<close> to \<open>end_date\<close> fetches when
  only the date \<open>d\<close> has data; \<open>yf10\<close> quotes every symbol at 10.\<close>

definition single_day :: "date \<Rightarrow> row list \<Rightarrow> date \<Rightarrow> date \<Rightarrow> (date \<times> row list option) list" where
  "single_day d day start_date end_date =
     map (\<lambda>date. (date, if date = d then Some day else None)) (trading_dates start_date end_date)"

definition yf10 :: "string \<Rightarrow> fl option" where
  "yf10 s = Some (Fin 10)"






text \<open>A day's file of five symbols.  In \<open>acc_day1\<close> every symbol has ratio 1.5 and
  DP index 60; \<open>acc_day2\<close> differs from it in the rows of A, B and C only, whose ratio is
  0.25.\<close>

definition acc_day1 :: "row list" where
  "acc_day1 = map (\<lambda>s. raw_row 20240424 s 3000000 5000000) [''A'', ''B'', ''C'', ''D'', ''E'']"

definition acc_day2 :: "row list" where
  "acc_day2 = map (\<lambda>s. raw_row 20240424 s 1000000 5000000) [''A'', ''B'', ''C'']
            @ map (\<lambda>s. raw_row 20240424 s 3000000 5000000) [''D'', ''E'']"

text \<open>A day's file with one symbol above and one below a minimum volume of 1,000,000.\<close>

definition tdp_day :: "(date \<times> row list option) list" where
  "tdp_day = single_day 739000
     [raw_row 20240424 ''XYZ'' 3000000 5000000, raw_row 20240424 ''LOW'' 10 20]
     (739001 - 14) 739001"

section \<open>Facts about the pandas operations\<close>















lemma filter_zip_fst:
  assumes "length xs = length ys"
  shows "map fst (filter (\<lambda>p. P (fst p)) (zip xs ys)) = filter P xs"
  using assms by (induction xs ys rule: list_induct2) simp_all

text \<open>Rolling windows and grouped transforms.\<close>

lemma length_rolling: "length (rolling w mp agg xs) = length xs"
  by (simp add: rolling_def)

lemma length_rolling_flag: "length (rolling_flag w mp n flags) = length flags"
  by (simp add: rolling_flag_def rolling_sum_def length_rolling)

lemma rolling_flag_short:
  assumes "i < length flags" and "Suc i < mp"
  shows "\<not> rolling_flag w mp n flags ! i"
proof -
  have "length (dropna (window w i (map of_bool_fl flags))) \<le> Suc i"
    unfolding dropna_def window_def
    by (rule le_trans [OF length_filter_le]) simp
  with assms(2) have "\<not> mp \<le> length (dropna (window w i (map of_bool_fl flags)))"
    by simp
  with assms(1) show ?thesis
    by (simp add: rolling_flag_def rolling_sum_def rolling_def Let_def f_ge_def)
qed



lemma length_groupby_transform: "length (groupby_transform key f xs) = length xs"
  by (simp add: groupby_transform_def)

lemma groupby_transform_suffix:
  assumes len: "\<And>g. length (f g) = length g" and "p @ s = xs"
  shows "map snd (filter (\<lambda>(x, y). key x = k)
           (zip s (map (\<lambda>i. let k' = key (xs ! i)
                           in f (filter (\<lambda>x. key x = k') xs) !
                              length (filter (\<lambda>x. key x = k') (take i xs)))
                     [length p..<length xs]))) =
         drop (length (filter (\<lambda>x. key x = k) p)) (f (filter (\<lambda>x. key x = k) xs))"
  using assms(2)
proof (induction s arbitrary: p)
  case Nil
  then show ?case by (simp add: len)
next
  case (Cons a s)
  let ?P = "\<lambda>x. key x = k"
  let ?G = "\<lambda>i. let k' = key (xs ! i)
                 in f (filter (\<lambda>x. key x = k') xs) ! length (filter (\<lambda>x. key x = k') (take i xs))"
  from Cons.prems have xs: "(p @ [a]) @ s = xs" by simp
  have lt: "length p < length xs" using Cons.prems by auto
  have upt: "[length p..<length xs] = length p # [length (p @ [a])..<length xs]"
    using lt by (simp add: upt_conv_Cons)
  have at: "xs ! length p = a" and tk: "take (length p) xs = p"
    using Cons.prems by auto
  note IH = Cons.IH [OF xs]
  show ?case
  proof (cases "key a = k")
    case True
    have "length (filter ?P p) < length (filter ?P xs)"
      using Cons.prems True by auto
    then have n: "length (filter ?P p) < length (f (filter ?P xs))"
      by (simp add: len)
    show ?thesis
      unfolding upt
      using True IH Cons_nth_drop_Suc [OF n]
      by (simp add: at tk Let_def)
  next
    case False
    then show ?thesis
      unfolding upt using IH by (simp add: at tk Let_def)
  qed
qed

lemma groupby_transform_group:
  assumes "\<And>g. length (f g) = length g"
  shows "map snd (filter (\<lambda>(x, y). key x = k) (zip xs (groupby_transform key f xs))) =
         f (filter (\<lambda>x. key x = k) xs)"
  using groupby_transform_suffix [of f "[]" xs xs key k, OF assms]
  by (simp add: groupby_transform_def)





text \<open>Every loaded row is a row of some fetched day, prepared and stamped with that
  day's date.\<close>

lemma collect_frames_rows:
  "r \<in> set (concat (collect_frames prep skip_empty fetched)) \<Longrightarrow>
     \<exists>d daily r0. (d, Some daily) \<in> set fetched \<and> r0 \<in> set (prep daily) \<and> r = r0\<lparr>Date := d\<rparr>"
proof (induction prep skip_empty fetched rule: collect_frames.induct)
  case (1 prep skip_empty)
  then show ?case by simp
next
  case (2 prep skip_empty date rest)
  then show ?case by auto
next
  case (3 prep skip_empty date daily_data rest)
  then show ?case
    by (auto simp: Let_def split: if_splits)
qed

section \<open>The derived columns\<close>






lemma derive_metrics_ratio:
  "r \<in> set (derive_metrics avg_col dp_col data) \<Longrightarrow>
     Buy_Sell_Ratio r = fdiv (of_int64 (Bought r)) (of_int64 (Sold r))"
  by (auto simp: derive_metrics_def Let_def)

text \<open>
  Claim C7.  For every raw record the derived record has \<^verbatim>\<open>Bought\<close> equal to
  \<^verbatim>\<open>ShortVolume\<close>, \<^verbatim>\<open>Sold\<close> equal to \<^verbatim>\<open>TotalVolume - ShortVolume\<close>, and
  \<^verbatim>\<open>Bought + Sold\<close>, the derived \<^verbatim>\<open>Total Volume\<close> and the raw \<^verbatim>\<open>TotalVolume\<close> all
  equal.  The statement is about whole columns, as the program computes them, and holds
  for all integers, the non-negative ones of the claim among them.
\<close>

theorem derive_metrics_volumes:
  "map Bought (derive_metrics avg_col dp_col data) = map ShortVolume data \<and>
   map Sold (derive_metrics avg_col dp_col data) = map (\<lambda>r. TotalVolume r - ShortVolume r) data \<and>
   map (\<lambda>r. Bought r + Sold r) (derive_metrics avg_col dp_col data) =
     map Total_Volume (derive_metrics avg_col dp_col data) \<and>
   map Total_Volume (derive_metrics avg_col dp_col data) = map TotalVolume data \<and>
   map TotalVolume (derive_metrics avg_col dp_col data) = map TotalVolume data"
  by (simp add: derive_metrics_def Let_def comp_def)

text \<open>
  Claim C6.  A derived record with \<^verbatim>\<open>Sold = 0\<close> and \<^verbatim>\<open>Bought > 0\<close> has an infinite
  \<^verbatim>\<open>Buy-Sell Ratio\<close>.  The buy-mode ratio filter of Filter Analysis (\<open>\<ge>\<close>) keeps it
  and the sell-mode filter (\<open>\<le>\<close>) drops it, whatever the finite threshold; the filters
  of Volume Buy (\<open>> 1.5\<close>) and Volume Sell (\<open>< 0.5\<close>) do the same.
\<close>

theorem degenerate_ratio:
  assumes "r \<in> set (derive_metrics avg_col dp_col data)" and "Sold r = 0" and "0 < Bought r"
  shows "Buy_Sell_Ratio r = PInf \<and>
         filter_ratio Buy threshold [r] = [r] \<and> filter_ratio Sell threshold [r] = [] \<and>
         f_gt (Buy_Sell_Ratio r) (Fin (3 / 2)) \<and> \<not> f_lt (Buy_Sell_Ratio r) (Fin (1 / 2))"
proof -
  have "Buy_Sell_Ratio r = PInf"
    using assms by (simp add: derive_metrics_ratio of_int64_def)
  then show ?thesis
    by (simp add: filter_ratio_def f_ge_def f_gt_def)
qed

text \<open>The scenario of the specification: 500,000 bought, nothing sold.\<close>

theorem degenerate_ratio_witness:
  "derive_metrics Total_Volume Total_Volume [raw_row 739000 ''XYZ'' 500000 500000] \<noteq> [] \<and>
   (let r = hd (derive_metrics Total_Volume Total_Volume [raw_row 739000 ''XYZ'' 500000 500000])
    in Sold r = 0 \<and> Bought r = 500000 \<and> Buy_Sell_Ratio r = PInf \<and>
       filter_ratio Buy (3 / 2) [r] = [r] \<and> filter_ratio Sell (1 / 2) [r] = [])"
proof -
  let ?d = "derive_metrics Total_Volume Total_Volume [raw_row 739000 ''XYZ'' 500000 500000]"
  have ne: "?d \<noteq> []"
    by (simp add: derive_metrics_def Let_def)
  then have mem: "hd ?d \<in> set ?d"
    by simp
  have sold: "Sold (hd ?d) = 0" and bought: "Bought (hd ?d) = 500000"
    by (simp_all add: derive_metrics_def Let_def raw_row_def)
  have pos: "0 < Bought (hd ?d)" using bought by simp
  show ?thesis
    using degenerate_ratio [OF mem sold pos, of "3 / 2"]
      degenerate_ratio [OF mem sold pos, of "1 / 2"] sold bought ne
    by (simp add: Let_def)
qed

section \<open>Top Dark Pools: the ratio is finite\<close>

lemma top_dark_pools_combined_row:
  "r \<in> set (top_dark_pools_combined data_frames) \<Longrightarrow>
     \<exists>r1 \<in> set (concat data_frames). Sold r = Sold r1 \<and> Bought r = Bought r1 \<and>
        Buy_Sell_Ratio r = fdiv (of_int64 (Bought r1)) (of_int64 (Sold r1))"
  by (fastforce simp: top_dark_pools_combined_def Let_def)

lemma top_dark_pools_frames_row:
  assumes "r1 \<in> set (concat (top_dark_pools_frames min_volume fetched))"
  shows "min_volume \<le> Bought r1 \<and> min_volume \<le> Sold r1"
proof -
  from collect_frames_rows [OF assms [unfolded top_dark_pools_frames_def]]
  obtain d daily r0 where
    r0: "r0 \<in> set (volume_filter min_volume
            (map (\<lambda>r. r\<lparr>Sold := TotalVolume r - ShortVolume r\<rparr>)
               (map (\<lambda>r. r\<lparr>Bought := ShortVolume r\<rparr>) daily)))"
    and eq: "r1 = r0\<lparr>Date := d\<rparr>"
    by (auto simp: Let_def)
  from r0 have "min_volume \<le> Bought r0 \<and> min_volume \<le> Sold r0"
    unfolding volume_filter_def by simp
  with eq show ?thesis by simp
qed

text \<open>
  Claim C10.  In Top Dark Pools the volume filter runs on each day's frame before the
  frames are combined and the ratio is computed.  So for a minimum volume above 0 every
  row that reaches the ratio computation has \<^verbatim>\<open>Sold\<close> at least the minimum volume,
  hence positive, and its \<^verbatim>\<open>Buy-Sell Ratio\<close> is the finite quotient
  \<^verbatim>\<open>Bought / Sold\<close>.
\<close>

theorem top_dark_pools_ratio_finite:
  assumes "0 < min_volume"
    and "r \<in> set (top_dark_pools_combined (top_dark_pools_frames min_volume fetched))"
  shows "min_volume \<le> Sold r \<and> 0 < Sold r \<and>
         Buy_Sell_Ratio r = Fin (of_int (Bought r) / of_int (Sold r))"
proof -
  from top_dark_pools_combined_row [OF assms(2)] obtain r1 where
    r1: "r1 \<in> set (concat (top_dark_pools_frames min_volume fetched))"
    and sold: "Sold r = Sold r1" and bought: "Bought r = Bought r1"
    and ratio: "Buy_Sell_Ratio r = fdiv (of_int64 (Bought r1)) (of_int64 (Sold r1))"
    by blast
  from top_dark_pools_frames_row [OF r1] sold assms(1)
  have s: "min_volume \<le> Sold r" "0 < Sold r" by auto
  with ratio sold bought show ?thesis by (simp add: of_int64_def)
qed

text \<open>With a minimum volume of 1,000,000 the symbol below it never reaches the ratio
  computation; the other one gets the ratio 1.5.\<close>

theorem top_dark_pools_ratio_finite_witness:
  "(0::int) < 1000000 \<and>
   map Symbol (top_dark_pools_combined (top_dark_pools_frames 1000000 tdp_day)) = [''XYZ''] \<and>
   map Sold (top_dark_pools_combined (top_dark_pools_frames 1000000 tdp_day)) = [2000000] \<and>
   map Buy_Sell_Ratio (top_dark_pools_combined (top_dark_pools_frames 1000000 tdp_day)) = [Fin (3 / 2)]"
proof -
  let ?c = "top_dark_pools_combined (top_dark_pools_frames 1000000 tdp_day)"
  have sym: "map Symbol ?c = [''XYZ'']"
    by code_simp
  then have ne: "?c \<noteq> []" by auto
  then have mem: "hd ?c \<in> set ?c" by simp
  have c: "?c = [hd ?c]" using sym by (cases ?c) auto
  have b: "Bought (hd ?c) = 3000000" "Sold (hd ?c) = 2000000"
    by code_simp+
  have pos: "(0::int) < 1000000" by simp
  from top_dark_pools_ratio_finite [OF pos mem] b
  have "Buy_Sell_Ratio (hd ?c) = Fin (3 / 2)" by simp
  with c b sym show ?thesis
    by (metis (no_types, lifting) list.simps(8,9) pos)
qed

section \<open>The rolling accumulation flag\<close>

text \<open>
  Where the window runs within one symbol, a record with fewer than five observations
  of its symbol never carries the flag: in Ticker Analysis, whose frame holds one symbol,
  and in Accumulation Analysis, which groups by symbol.  In Accumulation Analysis and in
  Top Dark Pools the flags of a symbol's rows are the rolling flags of that symbol's rows
  taken alone.
\<close>

lemma ticker_accumulation_short_history:
  assumes "i < length data" and "i < 4"
  shows "\<not> Rolling_Accumulation (ticker_accumulation data ! i)"
  using assms rolling_flag_short [of i "map (\<lambda>r. f_gt (Buy_Sell_Ratio r) (Fin (5 / 4))) data" 5 5 5]
  by (simp add: ticker_accumulation_def Let_def length_rolling_flag comp_def)

lemma accumulation_analysis_short_history:
  assumes "i < length data"
    and "length (filter (\<lambda>r. Symbol r = Symbol (data ! i)) (take (Suc i) data)) < 5"
  shows "\<not> Rolling_Accumulation (accumulation_analysis_flags data ! i)"
proof -
  let ?d = "map (\<lambda>r. r\<lparr>Accumulation := f_gt (Buy_Sell_Ratio r) (Fin (5 / 4))\<rparr>) data"
  let ?g = "filter (\<lambda>x. Symbol x = Symbol (data ! i)) ?d"
  let ?j = "length (filter (\<lambda>x. Symbol x = Symbol (data ! i)) (take i ?d))"
  have take_Suc: "take (Suc i) data = take i data @ [data ! i]"
    using assms(1) by (simp add: take_Suc_conv_app_nth)
  have j: "Suc ?j < 5"
    using assms(2) by (simp add: take_Suc take_map filter_map comp_def)
  have "length (filter (\<lambda>x. Symbol x = Symbol (data ! i)) (take i ?d)) <
        length (filter (\<lambda>x. Symbol x = Symbol (data ! i)) (take i ?d @ drop i ?d))"
    using assms(1) by (simp add: Cons_nth_drop_Suc [symmetric] drop_map del: append_take_drop_id)
  then have jlt: "?j < length (map Accumulation ?g)"
    by simp
  have "\<not> rolling_flag 5 5 5 (map Accumulation ?g) ! ?j"
    by (rule rolling_flag_short [OF jlt]) (use j in simp)
  with assms(1) show ?thesis
    by (simp add: accumulation_analysis_flags_def Let_def groupby_transform_def
        length_rolling_flag)
qed

lemma accumulation_analysis_rolling_by_symbol:
  "map Rolling_Accumulation (filter (\<lambda>r. Symbol r = s) (accumulation_analysis_flags data)) =
   rolling_flag 5 5 5
     (map (\<lambda>r. f_gt (Buy_Sell_Ratio r) (Fin (5 / 4))) (filter (\<lambda>r. Symbol r = s) data))"
proof -
  let ?d = "map (\<lambda>r. r\<lparr>Accumulation := f_gt (Buy_Sell_Ratio r) (Fin (5 / 4))\<rparr>) data"
  let ?f = "\<lambda>x. rolling_flag 5 5 5 (map Accumulation x)"
  let ?col = "groupby_transform Symbol ?f ?d"
  let ?d2 = "map (\<lambda>(r, b). r\<lparr>Rolling_Accumulation := b\<rparr>) (zip ?d ?col)"
  let ?col2 = "groupby_transform Symbol
      (\<lambda>x. replicate (length x) (list_ex Rolling_Accumulation (drop (length x - 5) x))) ?d2"
  have "map Rolling_Accumulation (filter (\<lambda>r. Symbol r = s) (accumulation_analysis_flags data)) =
      map Rolling_Accumulation (map fst (filter (\<lambda>p. Symbol (fst p) = s) (zip ?d2 ?col2)))"
    by (simp add: accumulation_analysis_flags_def Let_def filter_map comp_def split_def)
  also have "\<dots> = map Rolling_Accumulation (filter (\<lambda>r. Symbol r = s) ?d2)"
    by (subst filter_zip_fst) (simp_all add: length_groupby_transform)
  also have "\<dots> = map snd (filter (\<lambda>(x, y). Symbol x = s) (zip ?d ?col))"
    by (simp add: filter_map comp_def split_def)
  also have "\<dots> = ?f (filter (\<lambda>x. Symbol x = s) ?d)"
    by (rule groupby_transform_group) (simp add: length_rolling_flag)
  also have "\<dots> = rolling_flag 5 5 5
     (map (\<lambda>r. f_gt (Buy_Sell_Ratio r) (Fin (5 / 4))) (filter (\<lambda>r. Symbol r = s) data))"
    by (simp add: filter_map comp_def)
  finally show ?thesis .
qed

lemma top_dark_pools_consistent_by_symbol:
  "map Consistent_Accumulation
     (filter (\<lambda>r. Symbol r = s) (top_dark_pools_accumulation combined_data)) =
   rolling_flag 5 5 5
     (map (\<lambda>r. f_gt (Buy_Sell_Ratio r) (Fin (5 / 4)))
        (filter (\<lambda>r. Symbol r = s) (top_dark_pools_by_symbol_date combined_data)))"
proof -
  let ?acc = "top_dark_pools_by_symbol_date combined_data"
  let ?f = "\<lambda>x. rolling_flag 5 5 5 (map (\<lambda>r. f_gt (Buy_Sell_Ratio r) (Fin (5 / 4))) x)"
  have "map Consistent_Accumulation
     (filter (\<lambda>r. Symbol r = s) (top_dark_pools_accumulation combined_data)) =
     map snd (filter (\<lambda>(x, y). Symbol x = s) (zip ?acc (groupby_transform Symbol ?f ?acc)))"
    by (simp add: top_dark_pools_accumulation_def Let_def filter_map comp_def split_def)
  also have "\<dots> = ?f (filter (\<lambda>x. Symbol x = s) ?acc)"
    by (rule groupby_transform_group) (simp add: length_rolling_flag)
  finally show ?thesis .
qed

text \<open>
  Claim C1 says that the rolling count of a record of symbol S depends on the records of
  S only.  The Accumulation mode (lines 588-589) rolls down the combined frame without
  grouping.  On the two example days the records of E are the same, yet E's
  \<^verbatim>\<open>Rolling Accumulation\<close> is true on the first and false on the second, because the
  rows of A, B and C fill its window; E is listed in the result of the first day and
  not of the second.
\<close>

theorem accumulation_rolling_crosses_symbols:
  "filter (\<lambda>r. Symbol r = ''E'') acc_day1 = filter (\<lambda>r. Symbol r = ''E'') acc_day2 \<and>
   map (\<lambda>r. (Symbol r, Accumulation r, Rolling_Accumulation r))
     (accumulation_flags (derive_metrics Total_Volume Total_Volume acc_day1)) =
     [(''A'', True, False), (''B'', True, False), (''C'', True, False), (''D'', True, False),
      (''E'', True, True)] \<and>
   map (\<lambda>r. (Symbol r, Accumulation r, Rolling_Accumulation r))
     (accumulation_flags (derive_metrics Total_Volume Total_Volume acc_day2)) =
     [(''A'', False, False), (''B'', False, False), (''C'', False, False), (''D'', True, False),
      (''E'', True, False)] \<and>
   map_option (map Symbol) (accumulation 1000000 5 739001 yf10 (single_day 739000 acc_day1 (739001 - 7) 739001)) = Some [''E''] \<and>
   map_option (map Symbol) (accumulation 1000000 5 739001 yf10 (single_day 739000 acc_day2 (739001 - 7) 739001)) = Some []"
  by code_simp

text \<open>
  Claim C5 says that the flag is false at a record with fewer than five observations of
  its symbol.  In the Accumulation mode the single record of E carries a true
  \<^verbatim>\<open>Rolling Accumulation\<close>, for the same reason as above.  Accumulation Analysis,
  which groups by symbol, gives the same record a false flag.
\<close>

theorem accumulation_rolling_true_on_short_history:
  "length (filter (\<lambda>r. Symbol r = ''E'')
     (accumulation_flags (derive_metrics Total_Volume Total_Volume acc_day1))) = 1 \<and>
   map (\<lambda>r. (Accumulation r, Rolling_Accumulation r)) (filter (\<lambda>r. Symbol r = ''E'')
     (accumulation_flags (derive_metrics Total_Volume Total_Volume acc_day1))) = [(True, True)] \<and>
   map (\<lambda>r. (Accumulation r, Rolling_Accumulation r)) (filter (\<lambda>r. Symbol r = ''E'')
     (accumulation_analysis_flags (derive_metrics Total_Volume Total_Volume acc_day1))) =
     [(True, False)]"
  by code_simp

section \<open>The date window of the Accumulation mode\<close>

text \<open>
  Claim C8 says that a row dated exactly the computed start date survives the date
  filter.  In the Accumulation mode the start date is the end date less two days and the
  comparison of line 614 is strict.  For an end date of 739002 the start date is 739000,
  the date of the example rows: the row of E, which is shown for an end date one day
  earlier, is dropped, and the date filter alone empties the frame that the filter of
  Filter Analysis (line 721) keeps whole.
\<close>

theorem accumulation_drops_start_date_row:
  "accumulation_start_date 739002 = 739000 \<and>
   map_option (map (\<lambda>r. (Date r, Symbol r))) (accumulation 1000000 5 739001 yf10 (single_day 739000 acc_day1 (739001 - 7) 739001)) =
     Some [(739000, ''E'')] \<and>
   accumulation 1000000 5 739002 yf10 (single_day 739000 acc_day1 (739002 - 7) 739002) = Some [] \<and>
   map Symbol (accumulation_date_filter 739000
     (accumulation_flags (derive_metrics Total_Volume Total_Volume
        (map (\<lambda>r. r\<lparr>Date := 739000\<rparr>) acc_day1)))) = [] \<and>
   map Symbol (filter_analysis_date_filter 739000
     (accumulation_flags (derive_metrics Total_Volume Total_Volume
        (map (\<lambda>r. r\<lparr>Date := 739000\<rparr>) acc_day1)))) = [''A'', ''B'', ''C'', ''D'', ''E'']"
  by code_simp

section \<open>The order of the pipeline steps\<close>








section \<open>The result caps\<close>



section \<open>Reversing the input rows\<close>










section \<open>Failed downloads and the cache\<close>

text \<open>
  Claim C3 says that a payload which does not parse makes the fetch return no data,
  without an exception and without a cache entry.  The function writes the payload to the
  cache before it parses it, and catches request exceptions only (lines 26-35).  For a
  response with status 200 and an empty text, which pandas refuses, the parser's
  exception leaves the function and the empty file is in the cache; a later call for the
  same date reads that file and makes no remote request.
\<close>

theorem download_caches_unparsed_payload:
  "fst (download_finra_data (\<lambda>d. ''20240424'') (\<lambda>url. Response 200 [])
       (\<lambda>text. if text = [] then None else Some text) 739000
       \<lparr>files = Map.empty, requested = []\<rparr>) = Inl ParserError \<and>
   files (snd (download_finra_data (\<lambda>d. ''20240424'') (\<lambda>url. Response 200 [])
       (\<lambda>text. if text = [] then None else Some text) 739000
       \<lparr>files = Map.empty, requested = []\<rparr>)) ''Data/Finra/CNMSshvol20240424.txt'' = Some [] \<and>
   requested (snd (download_finra_data (\<lambda>d. ''20240424'') (\<lambda>url. Response 200 ''Symbol|ShortVolume'')
       (\<lambda>text. if text = [] then None else Some text) 739000
       (snd (download_finra_data (\<lambda>d. ''20240424'') (\<lambda>url. Response 200 [])
          (\<lambda>text. if text = [] then None else Some text) 739000
          \<lparr>files = Map.empty, requested = []\<rparr>)))) =
     [''https://cdn.finra.org/equity/regsho/daily/CNMSshvol20240424.txt'']"
  by (simp add: download_finra_data_def DATA_DIR_def Let_def)

text \<open>
  Claim C3 as amended.  On a cache miss the fetch makes exactly one remote request.  When
  the request fails or the response has an error status (400 to 599), the fetch returns
  no data, raises nothing and leaves the cached files as they were, so a later call for
  the same date makes a remote request again.
\<close>

theorem download_failure_leaves_cache:
  assumes "files w (DATA_DIR @ ''/'' @ ''CNMSshvol'' @ strftime date @ ''.txt'') = None"
    and "remote (''https://cdn.finra.org/equity/regsho/daily/'' @ ''CNMSshvol'' @ strftime date @ ''.txt'') = RequestFailed \<or>
         (\<exists>status_code text.
            remote (''https://cdn.finra.org/equity/regsho/daily/'' @ ''CNMSshvol'' @ strftime date @ ''.txt'') = Response status_code text \<and>
            400 \<le> status_code \<and> status_code < 600)"
  shows "requested (snd (download_finra_data strftime remote' read_csv date w)) =
           requested w @
             [''https://cdn.finra.org/equity/regsho/daily/'' @ ''CNMSshvol'' @ strftime date @ ''.txt''] \<and>
         download_finra_data strftime remote read_csv date w =
           (Inr None, w\<lparr>requested := requested w @
              [''https://cdn.finra.org/equity/regsho/daily/'' @ ''CNMSshvol'' @ strftime date @ ''.txt'']\<rparr>) \<and>
         requested (snd (download_finra_data strftime remote' read_csv date
             (snd (download_finra_data strftime remote read_csv date w)))) =
           requested w @
             [''https://cdn.finra.org/equity/regsho/daily/'' @ ''CNMSshvol'' @ strftime date @ ''.txt'',
              ''https://cdn.finra.org/equity/regsho/daily/'' @ ''CNMSshvol'' @ strftime date @ ''.txt'']"
proof -
  let ?url = "''https://cdn.finra.org/equity/regsho/daily/'' @ ''CNMSshvol'' @ strftime date @ ''.txt''"
  let ?w1 = "w\<lparr>requested := requested w @ [?url]\<rparr>"
  have first: "download_finra_data strftime remote read_csv date w = (Inr None, ?w1)"
    using assms by (auto simp: download_finra_data_def Let_def)
  have miss: "files ?w1 (DATA_DIR @ ''/'' @ ''CNMSshvol'' @ strftime date @ ''.txt'') = None"
    using assms(1) by simp
  have "requested (snd (download_finra_data strftime remote' read_csv date ?w1)) =
          requested ?w1 @ [?url]"
    using miss
    by (auto simp: download_finra_data_def Let_def split: response.split option.split)
  moreover have "requested (snd (download_finra_data strftime remote' read_csv date w)) =
          requested w @ [?url]"
    using assms(1)
    by (auto simp: download_finra_data_def Let_def split: response.split option.split)
  ultimately show ?thesis using first by simp
qed

text \<open>A date the server answers with status 404, asked for twice.\<close>

theorem download_failure_leaves_cache_witness:
  "requested (snd (download_finra_data (\<lambda>d. ''20240424'') (\<lambda>url. RequestFailed)
       (\<lambda>text. if text = [] then None else Some text) 739000
       \<lparr>files = Map.empty, requested = []\<rparr>)) =
     [''https://cdn.finra.org/equity/regsho/daily/CNMSshvol20240424.txt''] \<and>
   download_finra_data (\<lambda>d. ''20240424'') (\<lambda>url. Response 404 ''Not Found'')
       (\<lambda>text. if text = [] then None else Some text) 739000 \<lparr>files = Map.empty, requested = []\<rparr> =
     (Inr None, \<lparr>files = Map.empty,
        requested = [''https://cdn.finra.org/equity/regsho/daily/CNMSshvol20240424.txt'']\<rparr>) \<and>
   requested (snd (download_finra_data (\<lambda>d. ''20240424'') (\<lambda>url. RequestFailed)
       (\<lambda>text. if text = [] then None else Some text) 739000
       (snd (download_finra_data (\<lambda>d. ''20240424'') (\<lambda>url. Response 404 ''Not Found'')
          (\<lambda>text. if text = [] then None else Some text) 739000
          \<lparr>files = Map.empty, requested = []\<rparr>)))) =
     [''https://cdn.finra.org/equity/regsho/daily/CNMSshvol20240424.txt'',
      ''https://cdn.finra.org/equity/regsho/daily/CNMSshvol20240424.txt'']"
proof -
  have miss: "files \<lparr>files = Map.empty, requested = []\<rparr>
      (DATA_DIR @ ''/'' @ ''CNMSshvol'' @ (\<lambda>d::date. ''20240424'') 739000 @ ''.txt'') = None"
    by simp
  have fail: "(\<lambda>url. Response 404 ''Not Found'')
        (''https://cdn.finra.org/equity/regsho/daily/'' @ ''CNMSshvol'' @ (\<lambda>d::date. ''20240424'') 739000 @ ''.txt'') = RequestFailed \<or>
      (\<exists>status_code text. (\<lambda>url. Response 404 ''Not Found'')
        (''https://cdn.finra.org/equity/regsho/daily/'' @ ''CNMSshvol'' @ (\<lambda>d::date. ''20240424'') 739000 @ ''.txt'') = Response status_code text \<and>
        400 \<le> status_code \<and> status_code < 600)"
    by simp
  from download_failure_leaves_cache [OF miss fail,
      where read_csv = "\<lambda>text. if text = [] then None else Some text"
        and remote' = "\<lambda>url. RequestFailed" and date = 739000]
  show ?thesis by auto
qed

end
